theory Spec2Isabelle
  imports Complex_Main
begin

section \<open>Python values used by the tracker\<close>

text \<open>
  The ledger engine is the class \<open>TelegramBudgetTracker\<close> of
  \<open>budget-track-telegram.py\<close>. Its methods mutate \<open>self.data\<close> and write the data file;
  here every method takes the tracker state and returns its result together with the state
  it leaves behind, also when it raises.

  Amounts are Python floats in the source and decimals in the specification. They are
  modelled as rationals: the arithmetic is exact, rounding is not modelled. Texts shown to
  the user (confirmation messages, alert lines, the transaction and goal listings) are
  modelled by the values they are formatted from, not by their characters.
\<close>

datatype py_error = OSError | ValueError | OverflowError | ZeroDivisionError

definition ebind :: "'e + 'a \<Rightarrow> ('a \<Rightarrow> 'e + 'b) \<Rightarrow> 'e + 'b" where
  "ebind r f = (case r of Inl e \<Rightarrow> Inl e | Inr v \<Rightarrow> f v)"

subsection \<open>Dictionaries\<close>

text \<open>
  A Python dict keeps its keys in insertion order; assigning to a key that is present
  replaces the value in place, assigning to a new key appends it.
\<close>

fun dict_set :: "('k \<times> 'v) list \<Rightarrow> 'k \<Rightarrow> 'v \<Rightarrow> ('k \<times> 'v) list" where
  "dict_set [] k v = [(k, v)]"
| "dict_set ((k', v') # m) k v =
     (if k' = k then (k, v) # m else (k', v') # dict_set m k v)"

definition dict_get :: "('k \<times> 'v) list \<Rightarrow> 'k \<Rightarrow> 'v \<Rightarrow> 'v" where
  \<comment> \<open>\<open>d.get(k, default)\<close>\<close>
  "dict_get m k dflt = (case map_of m k of None \<Rightarrow> dflt | Some v \<Rightarrow> v)"

subsection \<open>Dates and times\<close>

record datetime =
  year :: nat
  month :: nat
  day :: nat
  hour :: nat
  minute :: nat
  second :: nat

definition is_leap :: "nat \<Rightarrow> bool" where
  "is_leap y \<longleftrightarrow> y mod 4 = 0 \<and> (y mod 100 \<noteq> 0 \<or> y mod 400 = 0)"

definition days_in_month :: "nat \<Rightarrow> nat \<Rightarrow> nat" where
  "days_in_month y m =
     (if m = 2 then (if is_leap y then 29 else 28)
      else if m = 4 \<or> m = 6 \<or> m = 9 \<or> m = 11 then 30 else 31)"

definition valid_datetime :: "datetime \<Rightarrow> bool" where
  "valid_datetime d \<longleftrightarrow>
     1 \<le> year d \<and> year d \<le> 9999 \<and> 1 \<le> month d \<and> month d \<le> 12 \<and>
     1 \<le> day d \<and> day d \<le> days_in_month (year d) (month d) \<and>
     hour d < 24 \<and> minute d < 60 \<and> second d < 60"

definition mk_datetime :: "nat \<Rightarrow> nat \<Rightarrow> nat \<Rightarrow> py_error + datetime" where
  \<comment> \<open>\<open>datetime(y, m, d)\<close>: midnight of that day, \<open>ValueError\<close> outside the calendar\<close>
  "mk_datetime y m d =
     (if 1 \<le> y \<and> y \<le> 9999 \<and> 1 \<le> m \<and> m \<le> 12 \<and> 1 \<le> d \<and> d \<le> days_in_month y m
      then Inr \<lparr>year = y, month = m, day = d, hour = 0, minute = 0, second = 0\<rparr>
      else Inl ValueError)"

definition minus_one_day :: "datetime \<Rightarrow> py_error + datetime" where
  \<comment> \<open>\<open>d - timedelta(days=1)\<close>\<close>
  "minus_one_day d =
     (if 1 < day d then Inr (d\<lparr>day := day d - 1\<rparr>)
      else if 1 < month d
        then Inr (d\<lparr>month := month d - 1, day := days_in_month (year d) (month d - 1)\<rparr>)
      else if 1 < year d then Inr (d\<lparr>year := year d - 1, month := 12, day := 31\<rparr>)
      else Inl OverflowError)"

fun lex_le :: "nat list \<Rightarrow> nat list \<Rightarrow> bool" where
  "lex_le [] ys = True"
| "lex_le (x # xs) [] = False"
| "lex_le (x # xs) (y # ys) = (x < y \<or> (x = y \<and> lex_le xs ys))"

definition dt_fields :: "datetime \<Rightarrow> nat list" where
  "dt_fields d = [year d, month d, day d, hour d, minute d, second d]"

definition dt_le :: "datetime \<Rightarrow> datetime \<Rightarrow> bool" where
  \<comment> \<open>\<open>a <= b\<close> on datetimes\<close>
  "dt_le a b = lex_le (dt_fields a) (dt_fields b)"

type_synonym date = "nat \<times> nat \<times> nat"

definition date_of :: "datetime \<Rightarrow> date" where
  \<comment> \<open>what \<open>strftime("%Y-%m-%d")\<close> keeps of a datetime\<close>
  "date_of d = (year d, month d, day d)"

section \<open>The data model\<close>

text \<open>
  A transaction's \<open>date\<close> is written by \<open>strftime("%Y-%m-%d %H:%M:%S")\<close> and read back by
  \<open>strptime\<close> with the same format; the model keeps the datetime itself, to the second.
  The \<open>type\<close> of a transaction is the string the caller passed.
\<close>

record transaction =
  t_id :: nat
  t_date :: datetime
  t_amount :: rat
  t_category :: string
  t_type :: string
  t_description :: string

record budget_entry =
  b_amount :: rat
  b_set_date :: date

record savings_goal =
  g_id :: nat
  g_name :: string
  g_target_amount :: rat
  g_current_amount :: rat
  g_target_date :: string
  g_created_date :: date

record account =
  transactions :: "transaction list"
  budgets :: "(string \<times> budget_entry) list"
  savings_goals :: "savings_goal list"
  total_savings :: rat

type_synonym ledger = "(string \<times> account) list"

subsection \<open>The data file\<close>

datatype json =
  JNull | JBool bool | JNum rat | JStr string | JArr "json list" | JObj "(string \<times> json) list"

text \<open>
  What \<open>json.load\<close> returns: a document of the ledger's shape, \<open>{'users': {...}}\<close>, or any
  other JSON value.
\<close>

datatype pydata = Ledger ledger | Other json

text \<open>
  The data file as \<open>load_data\<close> meets it: absent; present but not openable for reading;
  bytes that do not decode as text; text that is not JSON; JSON.
\<close>

datatype file_state = Missing | Unreadable | Undecodable | NotJson | Json pydata



text \<open>
  The tracker: \<open>users\<close> is \<open>self.data['users']\<close>, \<open>data_file\<close> the state of the file at
  the path \<open>self.data_file\<close>. The engine operations are modelled on a tracker whose data
  is a ledger document, as \<open>initialize_data\<close> and the operations themselves produce it.
\<close>

record tracker =
  users :: ledger
  data_file :: file_state

text \<open>
  \<open>save_data\<close> opens the file with mode \<open>'w'\<close>, which truncates it, and then dumps the
  document. The outcome of the I/O is an input of the model: the write succeeds, \<open>open\<close>
  fails (permission denied), or the dump fails after the truncation (disk full), which
  leaves a prefix of the JSON text.
\<close>

datatype io_outcome = WriteOk | OpenFails | DumpFails

definition save_data :: "io_outcome \<Rightarrow> tracker \<Rightarrow> (py_error + unit) \<times> tracker" where
  "save_data io s =
     (case io of
        WriteOk \<Rightarrow> (Inr (), s\<lparr>data_file := Json (Ledger (users s))\<rparr>)
      | OpenFails \<Rightarrow> (Inl OSError, s)
      | DumpFails \<Rightarrow> (Inl OSError, s\<lparr>data_file := NotJson\<rparr>))"

section \<open>The engine\<close>

definition fresh_account :: account where
  "fresh_account =
     \<lparr>transactions = [], budgets = [], savings_goals = [], total_savings = 0\<rparr>"

definition get_user_data :: "string \<Rightarrow> tracker \<Rightarrow> account \<times> tracker" where
  "get_user_data user_id s =
     (case map_of (users s) user_id of
        Some a \<Rightarrow> (a, s)
      | None \<Rightarrow> (fresh_account, s\<lparr>users := dict_set (users s) user_id fresh_account\<rparr>))"

datatype confirmation =
  TransactionAdded string rat | BudgetSet rat string | GoalAdded string

definition add_transaction ::
  "io_outcome \<Rightarrow> datetime \<Rightarrow> string \<Rightarrow> rat \<Rightarrow> string \<Rightarrow> string \<Rightarrow> string \<Rightarrow> tracker
     \<Rightarrow> (py_error + confirmation) \<times> tracker" where
  "add_transaction io now user_id amount category transaction_type description s =
     (let (user_data, s1) = get_user_data user_id s;
          transaction = \<lparr>t_id = length (transactions user_data) + 1, t_date = now,
                         t_amount = amount, t_category = category,
                         t_type = transaction_type, t_description = description\<rparr>;
          user_data1 = user_data\<lparr>transactions := transactions user_data @ [transaction]\<rparr>;
          user_data2 =
            (if transaction_type = ''income''
               then user_data1\<lparr>total_savings := total_savings user_data1 + amount\<rparr>
             else if transaction_type = ''expense''
               then user_data1\<lparr>total_savings := total_savings user_data1 - amount\<rparr>
             else user_data1);
          s2 = s1\<lparr>users := dict_set (users s1) user_id user_data2\<rparr>;
          (saved, s3) = save_data io s2
      in (ebind saved (\<lambda>_. Inr (TransactionAdded transaction_type amount)), s3))"

definition set_budget ::
  "io_outcome \<Rightarrow> datetime \<Rightarrow> string \<Rightarrow> string \<Rightarrow> rat \<Rightarrow> tracker
     \<Rightarrow> (py_error + confirmation) \<times> tracker" where
  "set_budget io now user_id category amount s =
     (let (user_data, s1) = get_user_data user_id s;
          user_data1 = user_data\<lparr>budgets :=
            dict_set (budgets user_data) category
              \<lparr>b_amount = amount, b_set_date = date_of now\<rparr>\<rparr>;
          s2 = s1\<lparr>users := dict_set (users s1) user_id user_data1\<rparr>;
          (saved, s3) = save_data io s2
      in (ebind saved (\<lambda>_. Inr (BudgetSet amount category)), s3))"

definition add_savings_goal ::
  "io_outcome \<Rightarrow> datetime \<Rightarrow> string \<Rightarrow> string \<Rightarrow> rat \<Rightarrow> string \<Rightarrow> tracker
     \<Rightarrow> (py_error + confirmation) \<times> tracker" where
  "add_savings_goal io now user_id name target_amount target_date s =
     (let (user_data, s1) = get_user_data user_id s;
          goal = \<lparr>g_id = length (savings_goals user_data) + 1, g_name = name,
                  g_target_amount = target_amount, g_current_amount = 0,
                  g_target_date = target_date, g_created_date = date_of now\<rparr>;
          user_data1 = user_data\<lparr>savings_goals := savings_goals user_data @ [goal]\<rparr>;
          s2 = s1\<lparr>users := dict_set (users s1) user_id user_data1\<rparr>;
          (saved, s3) = save_data io s2
      in (ebind saved (\<lambda>_. Inr (GoalAdded name)), s3))"

subsection \<open>The financial summary\<close>

definition period_range :: "datetime \<Rightarrow> string \<Rightarrow> py_error + (datetime \<times> datetime)" where
  \<comment> \<open>\<open>start_date\<close> and \<open>end_date\<close> of the period, at the clock value \<open>now\<close>\<close>
  "period_range now period =
     (if period = ''current_month'' then
        ebind (mk_datetime (year now) (month now) 1) (\<lambda>start_date.
        ebind (if month now < 12
                 then ebind (mk_datetime (year now) (month now + 1) 1) minus_one_day
                 else ebind (mk_datetime (year now + 1) 1 1) minus_one_day) (\<lambda>end_date.
        Inr (start_date, end_date)))
      else if period = ''last_month'' then
        (let last_month = (if 1 < month now then month now - 1 else 12);
             y = (if 1 < month now then year now else year now - 1)
         in ebind (mk_datetime y last_month 1) (\<lambda>start_date.
            ebind (ebind (mk_datetime (year now) (month now) 1) minus_one_day) (\<lambda>end_date.
            Inr (start_date, end_date))))
      else
        ebind (mk_datetime 2000 1 1) (\<lambda>start_date.
        ebind (mk_datetime 2100 1 1) (\<lambda>end_date.
        Inr (start_date, end_date))))"

definition period_transactions ::
  "datetime \<Rightarrow> datetime \<Rightarrow> transaction list \<Rightarrow> transaction list" where
  "period_transactions start_date end_date ts =
     filter (\<lambda>t. dt_le start_date (t_date t) \<and> dt_le (t_date t) end_date) ts"

definition amounts_of_type :: "string \<Rightarrow> transaction list \<Rightarrow> rat" where
  \<comment> \<open>\<open>sum(t['amount'] for t in ts if t['type'] == ty)\<close>\<close>
  "amounts_of_type ty ts = sum_list (map t_amount (filter (\<lambda>t. t_type t = ty) ts))"

fun expenses_by_category_loop ::
  "(string \<times> rat) list \<Rightarrow> transaction list \<Rightarrow> (string \<times> rat) list" where
  "expenses_by_category_loop acc [] = acc"
| "expenses_by_category_loop acc (t # ts) =
     expenses_by_category_loop
       (if t_type t = ''expense''
          then dict_set acc (t_category t) (dict_get acc (t_category t) 0 + t_amount t)
          else acc) ts"

record alert =
  a_category :: string
  a_spent :: rat
  a_budget :: rat

fun budget_alerts_loop ::
  "(string \<times> rat) list \<Rightarrow> (string \<times> budget_entry) list \<Rightarrow> alert list" where
  "budget_alerts_loop ebc [] = []"
| "budget_alerts_loop ebc ((category, budget_info) # bs) =
     (let spent = dict_get ebc category 0; budget = b_amount budget_info
      in if budget < spent
           then \<lparr>a_category = category, a_spent = spent, a_budget = budget\<rparr>
                  # budget_alerts_loop ebc bs
           else budget_alerts_loop ebc bs)"

record summary =
  s_period :: string
  s_total_income :: rat
  s_total_expenses :: rat
  s_net_savings :: rat
  s_expenses_by_category :: "(string \<times> rat) list"
  s_budget_alerts :: "alert list"
  s_total_savings :: rat

definition summary_of :: "string \<Rightarrow> account \<Rightarrow> transaction list \<Rightarrow> summary" where
  \<comment> \<open>the summary built from the transactions of the period\<close>
  "summary_of period user_data pts =
     (let total_income = amounts_of_type ''income'' pts;
          total_expenses = amounts_of_type ''expense'' pts;
          net_savings = total_income - total_expenses;
          expenses_by_category = expenses_by_category_loop [] pts;
          budget_alerts = budget_alerts_loop expenses_by_category (budgets user_data)
      in \<lparr>s_period = period, s_total_income = total_income,
          s_total_expenses = total_expenses, s_net_savings = net_savings,
          s_expenses_by_category = expenses_by_category,
          s_budget_alerts = budget_alerts,
          s_total_savings = total_savings user_data\<rparr>)"

definition get_financial_summary ::
  "datetime \<Rightarrow> string \<Rightarrow> string \<Rightarrow> tracker \<Rightarrow> (py_error + summary) \<times> tracker" where
  "get_financial_summary now user_id period s =
     (let (user_data, s1) = get_user_data user_id s
      in (ebind (period_range now period) (\<lambda>(start_date, end_date).
            Inr (summary_of period user_data
                   (period_transactions start_date end_date (transactions user_data)))),
          s1))"

subsection \<open>Listings\<close>

definition slice_from :: "'a list \<Rightarrow> int \<Rightarrow> 'a list" where
  \<comment> \<open>the Python slice \<open>xs[i:]\<close>: a negative \<open>i\<close> counts from the end, clipped at the start\<close>
  "slice_from xs i =
     (if i < 0 then drop (nat (int (length xs) + i)) xs else drop (nat i) xs)"

datatype transactions_view = NoTransactionsFound | RecentTransactions "transaction list"

definition view_transactions :: "string \<Rightarrow> int \<Rightarrow> tracker \<Rightarrow> transactions_view \<times> tracker" where
  \<comment> \<open>\<open>RecentTransactions\<close> lists the transactions in the order the message shows them\<close>
  "view_transactions user_id limit s =
     (let (user_data, s1) = get_user_data user_id s;
          ts = slice_from (transactions user_data) (- limit)
      in (if ts = [] then NoTransactionsFound else RecentTransactions (rev ts), s1))"

definition shown_transactions :: "transactions_view \<Rightarrow> transaction list" where
  "shown_transactions v = (case v of NoTransactionsFound \<Rightarrow> [] | RecentTransactions ts \<Rightarrow> ts)"

definition truediv :: "rat \<Rightarrow> rat \<Rightarrow> py_error + rat" where
  \<comment> \<open>Python's \<open>a / b\<close>\<close>
  "truediv a b = (if b = 0 then Inl ZeroDivisionError else Inr (a / b))"

definition goal_progress :: "savings_goal \<Rightarrow> py_error + rat" where
  "goal_progress goal =
     (if 0 < g_target_amount goal
        then ebind (truediv (g_current_amount goal) (g_target_amount goal))
               (\<lambda>q. Inr (q * 100))
        else Inr 0)"

definition py_int :: "rat \<Rightarrow> int" where
  \<comment> \<open>\<open>int(x)\<close> truncates towards zero\<close>
  "py_int x = (if 0 \<le> x then \<lfloor>x\<rfloor> else \<lceil>x\<rceil>)"

definition create_progress_bar :: "rat \<Rightarrow> nat \<times> nat" where
  \<comment> \<open>the numbers of filled and of empty cells of the bar, for \<open>length = 10\<close>\<close>
  "create_progress_bar progress =
     (let filled = py_int (10 * progress / 100) in (nat filled, nat (10 - filled)))"

record goal_line =
  l_goal :: savings_goal
  l_progress :: rat
  l_bar :: "nat \<times> nat"

fun goal_lines :: "savings_goal list \<Rightarrow> py_error + goal_line list" where
  "goal_lines [] = Inr []"
| "goal_lines (goal # goals) =
     ebind (goal_progress goal) (\<lambda>progress.
     ebind (goal_lines goals) (\<lambda>rest.
     Inr (\<lparr>l_goal = goal, l_progress = progress,
            l_bar = create_progress_bar progress\<rparr> # rest)))"

datatype goals_view = NoGoalsSet | SavingsGoals "goal_line list"

definition view_savings_goals :: "string \<Rightarrow> tracker \<Rightarrow> (py_error + goals_view) \<times> tracker" where
  "view_savings_goals user_id s =
     (let (user_data, s1) = get_user_data user_id s;
          goals = savings_goals user_data
      in (if goals = [] then Inr NoGoalsSet
          else ebind (goal_lines goals) (\<lambda>ls. Inr (SavingsGoals ls)), s1))"

section \<open>Observing the tracker\<close>

definition account_of :: "string \<Rightarrow> tracker \<Rightarrow> account" where
  \<comment> \<open>the account \<open>get_user_data\<close> hands out for a user: the stored one, or a fresh one\<close>
  "account_of user_id s = dict_get (users s) user_id fresh_account"

definition recorded_balance :: "account \<Rightarrow> rat" where
  \<comment> \<open>income recorded in the log minus expenses recorded in the log\<close>
  "recorded_balance a =
     amounts_of_type ''income'' (transactions a) - amounts_of_type ''expense'' (transactions a)"


text \<open>A sequence of \<open>add_transaction\<close> calls for one user, each with its own clock value
  and its own outcome of the save.\<close>

record add_call =
  c_io :: io_outcome
  c_now :: datetime
  c_amount :: rat
  c_category :: string
  c_type :: string
  c_description :: string

fun add_transactions :: "string \<Rightarrow> add_call list \<Rightarrow> tracker \<Rightarrow> tracker" where
  "add_transactions user_id [] s = s"
| "add_transactions user_id (c # cs) s =
     add_transactions user_id cs
       (snd (add_transaction (c_io c) (c_now c) user_id (c_amount c) (c_category c)
               (c_type c) (c_description c) s))"

subsection \<open>Concrete inputs\<close>

definition stamp :: "nat \<Rightarrow> nat \<Rightarrow> nat \<Rightarrow> nat \<Rightarrow> nat \<Rightarrow> nat \<Rightarrow> datetime" where
  "stamp y m d h mi sec =
     \<lparr>year = y, month = m, day = d, hour = h, minute = mi, second = sec\<rparr>"

definition empty_tracker :: tracker where
  \<comment> \<open>the tracker started without a data file\<close>
  "empty_tracker = \<lparr>users = [], data_file = Missing\<rparr>"

definition call :: "io_outcome \<Rightarrow> datetime \<Rightarrow> rat \<Rightarrow> string \<Rightarrow> string \<Rightarrow> add_call" where
  "call io now amount category ty =
     \<lparr>c_io = io, c_now = now, c_amount = amount, c_category = category, c_type = ty,
      c_description = []\<rparr>"


definition one_income_tracker :: tracker where
  \<comment> \<open>after one income of 1000 has been recorded and saved\<close>
  "one_income_tracker =
     snd (add_transaction WriteOk (stamp 2024 3 15 10 0 0) ''u1'' 1000 ''Salary'' ''income'' []
            empty_tracker)"

definition five_calls :: "add_call list" where
  "five_calls =
     [call WriteOk (stamp 2024 3 11 9 0 0) 1000 ''Salary'' ''income'',
      call WriteOk (stamp 2024 3 12 9 0 0) 20 ''Food'' ''expense'',
      call WriteOk (stamp 2024 3 13 9 0 0) 30 ''Housing'' ''expense'',
      call WriteOk (stamp 2024 3 14 9 0 0) 40 ''Gifts'' ''income'',
      call WriteOk (stamp 2024 3 15 9 0 0) 50 ''Other'' ''expense'']"

definition five_transactions_tracker :: tracker where
  "five_transactions_tracker = add_transactions ''u1'' five_calls empty_tracker"


definition scenario :: "datetime \<Rightarrow> tracker" where
  \<comment> \<open>income 1000 (Salary), expense 200 (Food), expense 50 (Food), then budget Food = 100,
      all recorded at the clock value \<open>now\<close>\<close>
  "scenario now =
     snd (set_budget WriteOk now ''u1'' ''Food'' 100
       (snd (add_transaction WriteOk now ''u1'' 50 ''Food'' ''expense'' []
         (snd (add_transaction WriteOk now ''u1'' 200 ''Food'' ''expense'' []
           (snd (add_transaction WriteOk now ''u1'' 1000 ''Salary'' ''income'' []
                  empty_tracker)))))))"

definition income_at :: "datetime \<Rightarrow> tracker" where
  \<comment> \<open>one income of 1000 recorded at the clock value \<open>now\<close>\<close>
  "income_at now =
     snd (add_transaction WriteOk now ''u1'' 1000 ''Salary'' ''income'' [] empty_tracker)"

definition negative_budget_tracker :: tracker where
  \<comment> \<open>no transactions, and a budget of -5 for Food\<close>
  "negative_budget_tracker =
     snd (set_budget WriteOk (stamp 2024 3 15 10 0 0) ''u1'' ''Food'' (- 5) empty_tracker)"

section \<open>Dictionary and account lemmas\<close>

lemma map_of_dict_set:
  "map_of (dict_set m k v) k' = (if k' = k then Some v else map_of m k')"
  by (induction m) auto

lemma dict_get_dict_set:
  "dict_get (dict_set m k v) k' d = (if k' = k then v else dict_get m k' d)"
  by (simp add: dict_get_def map_of_dict_set)

lemma users_save_data: "users (snd (save_data io s)) = users s"
  by (cases io) (simp_all add: save_data_def)

lemma get_user_data_fst: "fst (get_user_data u s) = account_of u s"
  by (simp add: get_user_data_def account_of_def dict_get_def split: option.splits)

lemma account_of_get_user_data: "account_of u' (snd (get_user_data u s)) = account_of u' s"
  by (simp add: get_user_data_def account_of_def dict_get_dict_set split: option.splits)
     (simp add: dict_get_def)

lemma account_of_add_transaction:
  "account_of u' (snd (add_transaction io now u amount category ty description s)) =
     (if u' = u
      then (account_of u s)\<lparr>
             transactions := transactions (account_of u s) @
               [\<lparr>t_id = length (transactions (account_of u s)) + 1, t_date = now,
                 t_amount = amount, t_category = category, t_type = ty,
                 t_description = description\<rparr>],
             total_savings :=
               (if ty = ''income'' then total_savings (account_of u s) + amount
                else if ty = ''expense'' then total_savings (account_of u s) - amount
                else total_savings (account_of u s))\<rparr>
      else account_of u' s)"
proof -
  obtain a s1 where g: "get_user_data u s = (a, s1)" by (cases "get_user_data u s")
  have a: "a = dict_get (users s) u fresh_account"
    using get_user_data_fst [of u s] g by (simp add: account_of_def)
  have s1: "account_of u' s1 = account_of u' s"
    using account_of_get_user_data [of u' u s] g by simp
  show ?thesis
    using s1 [unfolded account_of_def]
    by (simp add: add_transaction_def g Let_def split_beta account_of_def users_save_data
        dict_get_dict_set a)
qed

section \<open>The running balance\<close>




lemma fresh_account_balanced:
  "map_of (users s) u = None \<Longrightarrow>
   total_savings (account_of u s) = recorded_balance (account_of u s)"
  by (simp add: account_of_def dict_get_def fresh_account_def recorded_balance_def
      amounts_of_type_def)





section \<open>What the operations do to the document and the data file\<close>

lemma dict_set_same: "map_of m k = Some v \<Longrightarrow> dict_set m k v = m"
  by (induction m) (auto split: if_splits)

lemma dict_set_twice: "dict_set (dict_set m k a) k b = dict_set m k b"
  by (induction m) auto

lemma dict_set_absent: "map_of m k = None \<Longrightarrow> dict_set m k v = m @ [(k, v)]"
  by (induction m) (auto split: if_splits)

lemma account_of_absent: "map_of (users s) u = None \<Longrightarrow> account_of u s = fresh_account"
  by (simp add: account_of_def dict_get_def)

lemma users_get_user_data:
  "users (snd (get_user_data u s)) = dict_set (users s) u (account_of u s)"
  by (simp add: get_user_data_def account_of_def dict_get_def dict_set_same
      split: option.splits)

lemma data_file_get_user_data: "data_file (snd (get_user_data u s)) = data_file s"
  by (simp add: get_user_data_def split: option.splits)

lemma users_add_transaction:
  "users (snd (add_transaction io now u amount category ty description s)) =
     dict_set (users s) u
       ((account_of u s)\<lparr>
          transactions := transactions (account_of u s) @
            [\<lparr>t_id = length (transactions (account_of u s)) + 1, t_date = now,
              t_amount = amount, t_category = category, t_type = ty,
              t_description = description\<rparr>],
          total_savings :=
            (if ty = ''income'' then total_savings (account_of u s) + amount
             else if ty = ''expense'' then total_savings (account_of u s) - amount
             else total_savings (account_of u s))\<rparr>)"
proof -
  obtain a s1 where g: "get_user_data u s = (a, s1)" by (cases "get_user_data u s")
  have a: "a = account_of u s" using get_user_data_fst [of u s] g by simp
  have s1: "users s1 = dict_set (users s) u (account_of u s)"
    using users_get_user_data [of u s] g by simp
  show ?thesis
    by (simp add: add_transaction_def g Let_def split_beta users_save_data s1 dict_set_twice a)
qed

lemma users_set_budget:
  "users (snd (set_budget io now u category amount s)) =
     dict_set (users s) u
       ((account_of u s)\<lparr>budgets :=
          dict_set (budgets (account_of u s)) category
            \<lparr>b_amount = amount, b_set_date = date_of now\<rparr>\<rparr>)"
proof -
  obtain a s1 where g: "get_user_data u s = (a, s1)" by (cases "get_user_data u s")
  have a: "a = account_of u s" using get_user_data_fst [of u s] g by simp
  have s1: "users s1 = dict_set (users s) u (account_of u s)"
    using users_get_user_data [of u s] g by simp
  show ?thesis
    by (simp add: set_budget_def g Let_def split_beta users_save_data s1 dict_set_twice a)
qed

lemma users_add_savings_goal:
  "users (snd (add_savings_goal io now u name target_amount target_date s)) =
     dict_set (users s) u
       ((account_of u s)\<lparr>savings_goals := savings_goals (account_of u s) @
          [\<lparr>g_id = length (savings_goals (account_of u s)) + 1, g_name = name,
            g_target_amount = target_amount, g_current_amount = 0,
            g_target_date = target_date, g_created_date = date_of now\<rparr>]\<rparr>)"
proof -
  obtain a s1 where g: "get_user_data u s = (a, s1)" by (cases "get_user_data u s")
  have a: "a = account_of u s" using get_user_data_fst [of u s] g by simp
  have s1: "users s1 = dict_set (users s) u (account_of u s)"
    using users_get_user_data [of u s] g by simp
  show ?thesis
    by (simp add: add_savings_goal_def g Let_def split_beta users_save_data s1
        dict_set_twice a)
qed

lemma snd_get_financial_summary:
  "snd (get_financial_summary now u period s) = snd (get_user_data u s)"
  by (simp add: get_financial_summary_def split_beta)

lemma snd_view_transactions: "snd (view_transactions u limit s) = snd (get_user_data u s)"
  by (simp add: view_transactions_def split_beta Let_def)

lemma snd_view_savings_goals: "snd (view_savings_goals u s) = snd (get_user_data u s)"
  by (simp add: view_savings_goals_def split_beta Let_def)

lemma fst_add_transaction:
  "fst (add_transaction io now u amount category ty description s) =
     (if io = WriteOk then Inr (TransactionAdded ty amount) else Inl OSError)"
  by (cases io) (simp_all add: add_transaction_def Let_def split_beta save_data_def ebind_def)

lemma fst_set_budget:
  "fst (set_budget io now u category amount s) =
     (if io = WriteOk then Inr (BudgetSet amount category) else Inl OSError)"
  by (cases io) (simp_all add: set_budget_def Let_def split_beta save_data_def ebind_def)

lemma fst_add_savings_goal:
  "fst (add_savings_goal io now u name target_amount target_date s) =
     (if io = WriteOk then Inr (GoalAdded name) else Inl OSError)"
  by (cases io) (simp_all add: add_savings_goal_def Let_def split_beta save_data_def ebind_def)

lemma data_file_add_transaction:
  "io \<noteq> WriteOk \<Longrightarrow>
   data_file (snd (add_transaction io now u amount category ty description s)) =
     (if io = OpenFails then data_file s else NotJson)"
  using data_file_get_user_data [of u s]
  by (cases io) (simp_all add: add_transaction_def Let_def split_beta save_data_def)

lemma data_file_set_budget:
  "io \<noteq> WriteOk \<Longrightarrow>
   data_file (snd (set_budget io now u category amount s)) =
     (if io = OpenFails then data_file s else NotJson)"
  using data_file_get_user_data [of u s]
  by (cases io) (simp_all add: set_budget_def Let_def split_beta save_data_def)

lemma data_file_add_savings_goal:
  "io \<noteq> WriteOk \<Longrightarrow>
   data_file (snd (add_savings_goal io now u name target_amount target_date s)) =
     (if io = OpenFails then data_file s else NotJson)"
  using data_file_get_user_data [of u s]
  by (cases io) (simp_all add: add_savings_goal_def Let_def split_beta save_data_def)

text \<open>
  C2, as the code has it. When the save of a mutating operation (\<open>add_transaction\<close>,
  \<open>set_budget\<close>, \<open>add_savings_goal\<close>) fails, the operation raises the error of the save and
  returns no confirmation. The document in memory is not rolled back: it is the document
  a successful call leaves. The data file keeps its content when it could not be opened
  for writing; when the dump fails after the file was opened, the file was truncated and
  no longer holds the prior document.
\<close>

theorem save_failure_raises_without_rollback:
  assumes "io \<noteq> WriteOk"
  shows "fst (add_transaction io now u amount category ty description s) = Inl OSError
       \<and> fst (set_budget io now u category amount s) = Inl OSError
       \<and> fst (add_savings_goal io now u name target_amount target_date s) = Inl OSError
       \<and> users (snd (add_transaction io now u amount category ty description s))
           = users (snd (add_transaction WriteOk now u amount category ty description s))
       \<and> users (snd (set_budget io now u category amount s))
           = users (snd (set_budget WriteOk now u category amount s))
       \<and> users (snd (add_savings_goal io now u name target_amount target_date s))
           = users (snd (add_savings_goal WriteOk now u name target_amount target_date s))
       \<and> data_file (snd (add_transaction io now u amount category ty description s))
           = (if io = OpenFails then data_file s else NotJson)
       \<and> data_file (snd (set_budget io now u category amount s))
           = (if io = OpenFails then data_file s else NotJson)
       \<and> data_file (snd (add_savings_goal io now u name target_amount target_date s))
           = (if io = OpenFails then data_file s else NotJson)"
proof -
  have raised:
    "fst (add_transaction io now u amount category ty description s) = Inl OSError"
    "fst (set_budget io now u category amount s) = Inl OSError"
    "fst (add_savings_goal io now u name target_amount target_date s) = Inl OSError"
    using assms by (simp_all add: fst_add_transaction fst_set_budget fst_add_savings_goal)
  have kept:
    "users (snd (add_transaction io now u amount category ty description s))
       = users (snd (add_transaction WriteOk now u amount category ty description s))"
    "users (snd (set_budget io now u category amount s))
       = users (snd (set_budget WriteOk now u category amount s))"
    "users (snd (add_savings_goal io now u name target_amount target_date s))
       = users (snd (add_savings_goal WriteOk now u name target_amount target_date s))"
    by (simp_all only: users_add_transaction users_set_budget users_add_savings_goal)
  show ?thesis
    using raised kept assms
    by (simp only: data_file_add_transaction data_file_set_budget
        data_file_add_savings_goal simp_thms)
qed

theorem save_failure_raises_without_rollback_witness:
  "DumpFails \<noteq> WriteOk
   \<and> fst (add_transaction DumpFails (stamp 2024 3 15 10 0 1) ''u1'' 200 ''Food'' ''expense'' []
            one_income_tracker) = Inl OSError
   \<and> users (snd (add_transaction DumpFails (stamp 2024 3 15 10 0 1) ''u1'' 200 ''Food''
                   ''expense'' [] one_income_tracker))
       = users (snd (add_transaction WriteOk (stamp 2024 3 15 10 0 1) ''u1'' 200 ''Food''
                   ''expense'' [] one_income_tracker))
   \<and> data_file (snd (add_transaction DumpFails (stamp 2024 3 15 10 0 1) ''u1'' 200 ''Food''
                   ''expense'' [] one_income_tracker)) = NotJson"
proof -
  have h: "DumpFails \<noteq> WriteOk" by simp
  show ?thesis
    using save_failure_raises_without_rollback [OF h, of "stamp 2024 3 15 10 0 1" "''u1''" 200
        "''Food''" "''expense''" "[]" one_income_tracker]
    by simp
qed

text \<open>
  C2 as stated fails: after a failed save the transaction is in the in-memory
  account and has changed its balance, and a failure after the truncation has destroyed
  the document that was on disk.
\<close>

theorem save_failure_state_changed:
  "fst (add_transaction OpenFails (stamp 2024 3 15 10 0 1) ''u1'' 200 ''Food'' ''expense'' []
          one_income_tracker) = Inl OSError
   \<and> users (snd (add_transaction OpenFails (stamp 2024 3 15 10 0 1) ''u1'' 200 ''Food''
                   ''expense'' [] one_income_tracker)) \<noteq> users one_income_tracker
   \<and> total_savings (account_of ''u1'' one_income_tracker) = 1000
   \<and> total_savings (account_of ''u1''
        (snd (add_transaction OpenFails (stamp 2024 3 15 10 0 1) ''u1'' 200 ''Food''
                ''expense'' [] one_income_tracker))) = 800
   \<and> fst (add_transaction DumpFails (stamp 2024 3 15 10 0 1) ''u1'' 200 ''Food'' ''expense'' []
          one_income_tracker) = Inl OSError
   \<and> data_file one_income_tracker = Json (Ledger (users one_income_tracker))
   \<and> data_file (snd (add_transaction DumpFails (stamp 2024 3 15 10 0 1) ''u1'' 200 ''Food''
                ''expense'' [] one_income_tracker)) \<noteq> data_file one_income_tracker"
proof -
  have a: "account_of ''u1'' one_income_tracker =
      \<lparr>transactions = [\<lparr>t_id = 1, t_date = stamp 2024 3 15 10 0 0, t_amount = 1000,
          t_category = ''Salary'', t_type = ''income'', t_description = []\<rparr>],
       budgets = [], savings_goals = [], total_savings = 1000\<rparr>"
    by (simp add: one_income_tracker_def account_of_add_transaction)
       (simp add: account_of_def empty_tracker_def dict_get_def fresh_account_def)
  have f: "data_file one_income_tracker = Json (Ledger (users one_income_tracker))"
    by (simp add: one_income_tracker_def add_transaction_def Let_def split_beta save_data_def)
  have t: "total_savings (account_of ''u1''
        (snd (add_transaction OpenFails (stamp 2024 3 15 10 0 1) ''u1'' 200 ''Food''
                ''expense'' [] one_income_tracker))) = 800"
    by (simp add: account_of_add_transaction a)
  have u: "users (snd (add_transaction OpenFails (stamp 2024 3 15 10 0 1) ''u1'' 200 ''Food''
                   ''expense'' [] one_income_tracker)) \<noteq> users one_income_tracker"
  proof
    assume "users (snd (add_transaction OpenFails (stamp 2024 3 15 10 0 1) ''u1'' 200 ''Food''
                   ''expense'' [] one_income_tracker)) = users one_income_tracker"
    then have "account_of ''u1'' (snd (add_transaction OpenFails (stamp 2024 3 15 10 0 1)
                 ''u1'' 200 ''Food'' ''expense'' [] one_income_tracker))
               = account_of ''u1'' one_income_tracker"
      by (simp add: account_of_def)
    with t a show False by simp
  qed
  show ?thesis
    using t u by (simp add: fst_add_transaction a data_file_add_transaction f)
qed

section \<open>Unknown users and other users\<close>

lemma map_of_users_other:
  "u' \<noteq> u \<Longrightarrow> map_of (dict_set m u a) u' = map_of m u'"
  by (simp add: map_of_dict_set)

text \<open>
  C10. Every engine operation leaves the accounts of all other users as they were. Called
  for a user the document does not hold, \<open>get_user_data\<close> and the three read-only
  operations (\<open>get_financial_summary\<close>, \<open>view_transactions\<close>, \<open>view_savings_goals\<close>) append a
  fresh empty account for that user to the in-memory document and leave the data file
  alone; the three mutating operations append the fresh account with their one change
  applied to it.
\<close>

theorem unknown_user_created_others_kept:
  assumes "u' \<noteq> u"
  shows "map_of (users (snd (get_user_data u s))) u' = map_of (users s) u'
       \<and> map_of (users (snd (add_transaction io now u amount category ty description s))) u'
           = map_of (users s) u'
       \<and> map_of (users (snd (set_budget io now u category amount s))) u' = map_of (users s) u'
       \<and> map_of (users (snd (add_savings_goal io now u name target_amount target_date s))) u'
           = map_of (users s) u'
       \<and> map_of (users (snd (get_financial_summary now u period s))) u' = map_of (users s) u'
       \<and> map_of (users (snd (view_transactions u limit s))) u' = map_of (users s) u'
       \<and> map_of (users (snd (view_savings_goals u s))) u' = map_of (users s) u'
       \<and> data_file (snd (get_user_data u s)) = data_file s
       \<and> data_file (snd (get_financial_summary now u period s)) = data_file s
       \<and> data_file (snd (view_transactions u limit s)) = data_file s
       \<and> data_file (snd (view_savings_goals u s)) = data_file s
       \<and> (map_of (users s) u = None \<longrightarrow>
            users (snd (get_user_data u s)) = users s @ [(u, fresh_account)]
          \<and> users (snd (get_financial_summary now u period s)) = users s @ [(u, fresh_account)]
          \<and> users (snd (view_transactions u limit s)) = users s @ [(u, fresh_account)]
          \<and> users (snd (view_savings_goals u s)) = users s @ [(u, fresh_account)]
          \<and> users (snd (add_transaction io now u amount category ty description s))
              = users s @ [(u, fresh_account\<lparr>
                  transactions := [\<lparr>t_id = 1, t_date = now, t_amount = amount,
                    t_category = category, t_type = ty, t_description = description\<rparr>],
                  total_savings := (if ty = ''income'' then amount
                                    else if ty = ''expense'' then - amount else 0)\<rparr>)]
          \<and> users (snd (set_budget io now u category amount s))
              = users s @ [(u, fresh_account\<lparr>budgets :=
                  [(category, \<lparr>b_amount = amount, b_set_date = date_of now\<rparr>)]\<rparr>)]
          \<and> users (snd (add_savings_goal io now u name target_amount target_date s))
              = users s @ [(u, fresh_account\<lparr>savings_goals :=
                  [\<lparr>g_id = 1, g_name = name, g_target_amount = target_amount,
                    g_current_amount = 0, g_target_date = target_date,
                    g_created_date = date_of now\<rparr>]\<rparr>)])"
proof -
  have others:
    "map_of (users (snd (get_user_data u s))) u' = map_of (users s) u'"
    "map_of (users (snd (add_transaction io now u amount category ty description s))) u'
       = map_of (users s) u'"
    "map_of (users (snd (set_budget io now u category amount s))) u' = map_of (users s) u'"
    "map_of (users (snd (add_savings_goal io now u name target_amount target_date s))) u'
       = map_of (users s) u'"
    using assms
    by (simp_all only: users_get_user_data users_add_transaction users_set_budget
        users_add_savings_goal map_of_users_other simp_thms)
  have files: "data_file (snd (get_user_data u s)) = data_file s"
    by (rule data_file_get_user_data)
  have created: "users (snd (get_user_data u s)) = users s @ [(u, fresh_account)]"
    if "map_of (users s) u = None"
    using that by (simp add: users_get_user_data account_of_absent dict_set_absent)
  have changed:
    "users (snd (add_transaction io now u amount category ty description s))
       = users s @ [(u, fresh_account\<lparr>
           transactions := [\<lparr>t_id = 1, t_date = now, t_amount = amount,
             t_category = category, t_type = ty, t_description = description\<rparr>],
           total_savings := (if ty = ''income'' then amount
                             else if ty = ''expense'' then - amount else 0)\<rparr>)]"
    "users (snd (set_budget io now u category amount s))
       = users s @ [(u, fresh_account\<lparr>budgets :=
           [(category, \<lparr>b_amount = amount, b_set_date = date_of now\<rparr>)]\<rparr>)]"
    "users (snd (add_savings_goal io now u name target_amount target_date s))
       = users s @ [(u, fresh_account\<lparr>savings_goals :=
           [\<lparr>g_id = 1, g_name = name, g_target_amount = target_amount,
             g_current_amount = 0, g_target_date = target_date,
             g_created_date = date_of now\<rparr>]\<rparr>)]"
    if "map_of (users s) u = None"
    using that
    by (simp_all add: users_add_transaction users_set_budget users_add_savings_goal
        account_of_absent dict_set_absent)
       (simp_all add: fresh_account_def)
  show ?thesis
    unfolding snd_get_financial_summary snd_view_transactions snd_view_savings_goals
    using others files created changed by blast
qed

theorem unknown_user_created_others_kept_witness:
  "''u1'' \<noteq> ''u2'' \<and> map_of (users one_income_tracker) ''u2'' = None
   \<and> map_of (users (snd (add_transaction WriteOk (stamp 2024 3 15 10 0 1) ''u2'' 200 ''Food''
                           ''expense'' [] one_income_tracker))) ''u1''
       = map_of (users one_income_tracker) ''u1''
   \<and> users (snd (view_transactions ''u2'' 10 one_income_tracker))
       = users one_income_tracker @ [(''u2'', fresh_account)]
   \<and> data_file (snd (view_transactions ''u2'' 10 one_income_tracker))
       = data_file one_income_tracker"
proof -
  have h: "''u1'' \<noteq> ''u2''" by simp
  have n: "map_of (users one_income_tracker) ''u2'' = None"
    by (simp add: one_income_tracker_def users_add_transaction empty_tracker_def)
  show ?thesis
    using unknown_user_created_others_kept [where u' = "''u1''" and u = "''u2''"
        and s = one_income_tracker and io = WriteOk and now = "stamp 2024 3 15 10 0 1"
        and amount = 200 and category = "''Food''" and ty = "''expense''"
        and description = "[]" and limit = 10, OF h] h n
    by blast
qed

section \<open>Listing recent transactions\<close>

lemma view_transactions_fst:
  "fst (view_transactions u limit s) =
     (let ts = slice_from (transactions (account_of u s)) (- limit)
      in if ts = [] then NoTransactionsFound else RecentTransactions (rev ts))"
  using get_user_data_fst [of u s]
  by (simp add: view_transactions_def split_beta Let_def)

lemma shown_view_transactions:
  "shown_transactions (fst (view_transactions u limit s)) =
     rev (slice_from (transactions (account_of u s)) (- limit))"
  by (simp add: view_transactions_fst shown_transactions_def Let_def)

lemma slice_last:
  "0 < limit \<Longrightarrow> slice_from xs (- limit) = drop (length xs - nat limit) xs"
proof -
  assume l: "0 < limit"
  have "nat (int (length xs) + - limit) = length xs - nat limit" using l by linarith
  with l show ?thesis by (simp add: slice_from_def)
qed

lemma rev_last_is_take_rev: "rev (drop (length xs - k) xs) = take k (rev xs)"
  by (cases "k \<le> length xs") (simp_all add: rev_drop)

text \<open>
  C6. For a positive \<open>limit\<close>, \<open>view_transactions\<close> shows the last \<open>limit\<close> transactions of
  the account (all of them when there are fewer), the most recent first: the first
  \<open>limit\<close> entries of the reversed log. It reports that there are no transactions exactly
  when the account has none, and then shows nothing.
\<close>

theorem view_transactions_most_recent_first:
  assumes "0 < limit"
  shows "shown_transactions (fst (view_transactions u limit s))
           = rev (drop (length (transactions (account_of u s)) - nat limit)
                    (transactions (account_of u s)))
       \<and> shown_transactions (fst (view_transactions u limit s))
           = take (nat limit) (rev (transactions (account_of u s)))
       \<and> (fst (view_transactions u limit s) = NoTransactionsFound
            \<longleftrightarrow> transactions (account_of u s) = [])"
proof -
  have s: "slice_from (transactions (account_of u s)) (- limit)
             = drop (length (transactions (account_of u s)) - nat limit)
                 (transactions (account_of u s))"
    by (rule slice_last [OF assms])
  have e: "(drop (length (transactions (account_of u s)) - nat limit)
              (transactions (account_of u s)) = [])
           \<longleftrightarrow> transactions (account_of u s) = []"
    using assms by (cases "transactions (account_of u s)") auto
  have c1: "shown_transactions (fst (view_transactions u limit s))
           = rev (drop (length (transactions (account_of u s)) - nat limit)
                    (transactions (account_of u s)))"
    by (simp only: shown_view_transactions s)
  have c2: "shown_transactions (fst (view_transactions u limit s))
           = take (nat limit) (rev (transactions (account_of u s)))"
    by (simp only: c1 rev_last_is_take_rev)
  have c3: "fst (view_transactions u limit s) = NoTransactionsFound
            \<longleftrightarrow> transactions (account_of u s) = []"
    unfolding view_transactions_fst Let_def s using e by simp
  show ?thesis using c1 c2 c3 by blast
qed

lemma five_transactions_log:
  "map t_id (transactions (account_of ''u1'' five_transactions_tracker)) = [1, 2, 3, 4, 5]
   \<and> map t_amount (transactions (account_of ''u1'' five_transactions_tracker))
       = [1000, 20, 30, 40, 50]"
  by (simp add: five_transactions_tracker_def five_calls_def call_def
      account_of_add_transaction)
     (simp add: account_of_def empty_tracker_def dict_get_def fresh_account_def)

theorem view_transactions_most_recent_first_witness:
  "(0::int) < 2
   \<and> map t_id (shown_transactions (fst (view_transactions ''u1'' 2 five_transactions_tracker)))
       = [5, 4]
   \<and> map t_amount
        (shown_transactions (fst (view_transactions ''u1'' 2 five_transactions_tracker)))
       = [50, 40]
   \<and> shown_transactions (fst (view_transactions ''u1'' 2 empty_tracker)) = []"
proof -
  have h: "(0::int) < 2" by simp
  have a: "map t_id (take (nat 2) (rev (transactions (account_of ''u1'' five_transactions_tracker))))
             = [5, 4]"
          "map t_amount
             (take (nat 2) (rev (transactions (account_of ''u1'' five_transactions_tracker))))
             = [50, 40]"
    using five_transactions_log by (simp_all add: take_map [symmetric] rev_map [symmetric])
  have b: "transactions (account_of ''u1'' empty_tracker) = []"
    by (simp add: account_of_def empty_tracker_def dict_get_def fresh_account_def)
  have c: "shown_transactions (fst (view_transactions ''u1'' 2 five_transactions_tracker))
             = take (nat 2) (rev (transactions (account_of ''u1'' five_transactions_tracker)))"
    using view_transactions_most_recent_first [OF h, of "''u1''" five_transactions_tracker]
    by blast
  have d: "shown_transactions (fst (view_transactions ''u1'' 2 empty_tracker))
             = take (nat 2) (rev (transactions (account_of ''u1'' empty_tracker)))"
    using view_transactions_most_recent_first [OF h, of "''u1''" empty_tracker]
    by blast
  show ?thesis
    unfolding c d b using a by simp
qed

text \<open>
  C9. With \<open>limit = 0\<close> the slice \<open>transactions[-0:]\<close> is the whole list: an account with at
  least one transaction gets all its transactions listed, most recent first, and only an
  account without transactions gets the answer that none was found.
\<close>

theorem view_transactions_limit_zero:
  "fst (view_transactions u 0 s) =
     (if transactions (account_of u s) = [] then NoTransactionsFound
      else RecentTransactions (rev (transactions (account_of u s))))"
  by (simp add: view_transactions_fst slice_from_def)

theorem view_transactions_limit_zero_witness:
  "map t_id (shown_transactions (fst (view_transactions ''u1'' 0 five_transactions_tracker)))
     = [5, 4, 3, 2, 1]
   \<and> fst (view_transactions ''u1'' 0 empty_tracker) = NoTransactionsFound"
proof -
  have a: "transactions (account_of ''u1'' five_transactions_tracker) \<noteq> []"
    using five_transactions_log by auto
  have b: "transactions (account_of ''u1'' empty_tracker) = []"
    by (simp add: account_of_def empty_tracker_def dict_get_def fresh_account_def)
  have r: "map t_id (rev (transactions (account_of ''u1'' five_transactions_tracker)))
             = [5, 4, 3, 2, 1]"
    using five_transactions_log by (simp add: rev_map [symmetric])
  show ?thesis
    using view_transactions_limit_zero [of "''u1''" five_transactions_tracker]
      view_transactions_limit_zero [of "''u1''" empty_tracker] a b r
    by (simp add: shown_transactions_def)
qed

section \<open>Loading the data file\<close>




section \<open>Savings goals\<close>





section \<open>Properties of the financial summary\<close>

lemma account_of_set_budget:
  "account_of u' (snd (set_budget io now u category amount s)) =
     (if u' = u
      then (account_of u s)\<lparr>budgets :=
             dict_set (budgets (account_of u s)) category
               \<lparr>b_amount = amount, b_set_date = date_of now\<rparr>\<rparr>
      else account_of u' s)"
  by (simp add: account_of_def [of u'] users_set_budget dict_get_dict_set)

lemma fst_get_financial_summary:
  "fst (get_financial_summary now u period s) =
     ebind (period_range now period) (\<lambda>(start_date, end_date).
       Inr (summary_of period (account_of u s)
              (period_transactions start_date end_date (transactions (account_of u s)))))"
  using get_user_data_fst [of u s]
  by (simp add: get_financial_summary_def split_beta)

lemma period_range_all_time:
  assumes "period \<noteq> ''current_month''" and "period \<noteq> ''last_month''"
  shows "period_range now period = Inr (stamp 2000 1 1 0 0 0, stamp 2100 1 1 0 0 0)"
  using assms
  by (simp add: period_range_def mk_datetime_def days_in_month_def ebind_def stamp_def)

lemma period_range_current_month:
  assumes "1 \<le> year now" and "year now \<le> 9999" and "1 \<le> month now" and "month now \<le> 12"
    and "\<not> (month now = 12 \<and> year now = 9999)"
  shows "period_range now ''current_month'' =
           Inr (stamp (year now) (month now) 1 0 0 0,
                stamp (year now) (month now) (days_in_month (year now) (month now)) 0 0 0)"
proof (cases "month now < 12")
  case True
  have d: "1 \<le> days_in_month (year now) (month now)"
          "1 \<le> days_in_month (year now) (month now + 1)"
    by (simp_all add: days_in_month_def)
  show ?thesis
    using assms True d
    by (simp add: period_range_def mk_datetime_def ebind_def minus_one_day_def stamp_def)
next
  case False
  then have m: "month now = 12" using assms by simp
  have d: "days_in_month (year now) 12 = 31" "days_in_month (year now + 1) 1 = 31"
    by (simp_all add: days_in_month_def)
  show ?thesis
    using assms m d
    by (simp add: period_range_def mk_datetime_def ebind_def minus_one_day_def stamp_def)
qed

lemma budget_alerts_loop_eq:
  "budget_alerts_loop ebc bs =
     map (\<lambda>(category, budget_info).
            \<lparr>a_category = category, a_spent = dict_get ebc category 0,
             a_budget = b_amount budget_info\<rparr>)
       (filter (\<lambda>(category, budget_info). b_amount budget_info < dict_get ebc category 0) bs)"
  by (induction ebc bs rule: budget_alerts_loop.induct) (simp_all add: Let_def)

lemma scenario_account:
  "account_of ''u1'' (scenario now) =
     \<lparr>transactions =
        [\<lparr>t_id = 1, t_date = now, t_amount = 1000, t_category = ''Salary'',
          t_type = ''income'', t_description = []\<rparr>,
         \<lparr>t_id = 2, t_date = now, t_amount = 200, t_category = ''Food'',
          t_type = ''expense'', t_description = []\<rparr>,
         \<lparr>t_id = 3, t_date = now, t_amount = 50, t_category = ''Food'',
          t_type = ''expense'', t_description = []\<rparr>],
      budgets = [(''Food'', \<lparr>b_amount = 100, b_set_date = date_of now\<rparr>)],
      savings_goals = [], total_savings = 750\<rparr>"
  by (simp add: scenario_def account_of_set_budget account_of_add_transaction)
     (simp add: account_of_def empty_tracker_def dict_get_def fresh_account_def)

text \<open>
  What the summary loops compute in general: the entry of a category in
  \<open>expenses_by_category\<close> is the sum of the period's expenses in that category, and the
  alerts are the budgets whose amount is strictly below that sum, in the order of the
  budget table.
\<close>

lemma expenses_by_category_loop_get:
  "dict_get (expenses_by_category_loop acc ts) c 0 =
     dict_get acc c 0 +
     sum_list (map t_amount (filter (\<lambda>t. t_type t = ''expense'' \<and> t_category t = c) ts))"
  by (induction ts arbitrary: acc) (simp_all add: dict_get_dict_set)

lemma summary_budget_alerts:
  "s_budget_alerts (summary_of period a pts) =
     map (\<lambda>(category, budget_info).
            \<lparr>a_category = category,
             a_spent = sum_list (map t_amount
               (filter (\<lambda>t. t_type t = ''expense'' \<and> t_category t = category) pts)),
             a_budget = b_amount budget_info\<rparr>)
       (filter (\<lambda>(category, budget_info).
            b_amount budget_info < sum_list (map t_amount
               (filter (\<lambda>t. t_type t = ''expense'' \<and> t_category t = category) pts)))
          (budgets a))"
  by (simp add: summary_of_def Let_def budget_alerts_loop_eq expenses_by_category_loop_get
      dict_get_def [of "[]"])

lemma summary_of_nil:
  "summary_of period a [] =
     \<lparr>s_period = period, s_total_income = 0, s_total_expenses = 0, s_net_savings = 0,
      s_expenses_by_category = [], s_budget_alerts = budget_alerts_loop [] (budgets a),
      s_total_savings = total_savings a\<rparr>"
  by (simp add: summary_of_def amounts_of_type_def)

lemma budget_alerts_nothing_spent:
  "budget_alerts_loop [] bs =
     map (\<lambda>(category, budget_info).
            \<lparr>a_category = category, a_spent = 0, a_budget = b_amount budget_info\<rparr>)
       (filter (\<lambda>(category, budget_info). b_amount budget_info < 0) bs)"
  by (simp add: budget_alerts_loop_eq dict_get_def)

lemma scenario_summary_of:
  "summary_of period (account_of ''u1'' (scenario now))
     (transactions (account_of ''u1'' (scenario now))) =
     \<lparr>s_period = period, s_total_income = 1000, s_total_expenses = 250,
      s_net_savings = 750, s_expenses_by_category = [(''Food'', 250)],
      s_budget_alerts = [\<lparr>a_category = ''Food'', a_spent = 250, a_budget = 100\<rparr>],
      s_total_savings = 750\<rparr>"
proof -
  have i: "amounts_of_type ''income'' (transactions (account_of ''u1'' (scenario now))) = 1000"
    and e: "amounts_of_type ''expense'' (transactions (account_of ''u1'' (scenario now))) = 250"
    by (simp_all add: scenario_account amounts_of_type_def)
  have c: "expenses_by_category_loop [] (transactions (account_of ''u1'' (scenario now)))
           = [(''Food'', 250)]"
    by (simp add: scenario_account dict_get_def)
  have b: "budget_alerts_loop [(''Food'', 250)] (budgets (account_of ''u1'' (scenario now)))
           = [\<lparr>a_category = ''Food'', a_spent = 250, a_budget = 100\<rparr>]"
    by (simp add: scenario_account dict_get_def)
  have t: "total_savings (account_of ''u1'' (scenario now)) = 750"
    by (simp add: scenario_account)
  show ?thesis
    by (simp only: summary_of_def Let_def i e c b t) simp
qed

lemma range_march_2024:
  "period_range (stamp 2024 3 15 10 5 0) ''current_month''
     = Inr (stamp 2024 3 1 0 0 0, stamp 2024 3 31 0 0 0)"
  by (simp add: period_range_def mk_datetime_def ebind_def minus_one_day_def stamp_def
      days_in_month_def)

lemma range_january_2024:
  "period_range (stamp 2024 1 31 10 5 0) ''current_month''
     = Inr (stamp 2024 1 1 0 0 0, stamp 2024 1 31 0 0 0)"
  by (simp add: period_range_def mk_datetime_def ebind_def minus_one_day_def stamp_def
      days_in_month_def)

text \<open>
  Recorded in the middle of a month, the scenario of C3 gives the summary the claim
  states.
\<close>

lemma scenario_mid_month:
  "fst (get_financial_summary (stamp 2024 3 15 10 5 0) ''u1'' ''current_month''
          (scenario (stamp 2024 3 15 10 0 0))) =
     Inr \<lparr>s_period = ''current_month'', s_total_income = 1000, s_total_expenses = 250,
          s_net_savings = 750, s_expenses_by_category = [(''Food'', 250)],
          s_budget_alerts = [\<lparr>a_category = ''Food'', a_spent = 250, a_budget = 100\<rparr>],
          s_total_savings = 750\<rparr>"
proof -
  have p: "period_transactions (stamp 2024 3 1 0 0 0) (stamp 2024 3 31 0 0 0)
             (transactions (account_of ''u1'' (scenario (stamp 2024 3 15 10 0 0))))
           = transactions (account_of ''u1'' (scenario (stamp 2024 3 15 10 0 0)))"
    by (simp add: scenario_account period_transactions_def dt_le_def dt_fields_def stamp_def)
  show ?thesis
    unfolding fst_get_financial_summary range_march_2024
    by (simp only: ebind_def sum.case prod.case p scenario_summary_of)
qed

text \<open>
  C3 on the last day of a month. The end of \<open>current_month\<close> is computed as the first day
  of the next month minus one day, which is midnight at the start of the last day; a
  transaction recorded later on that day lies after the end of the period. Recorded on
  2024-01-31 at 10:00:00, the three transactions of the scenario are left out of the
  \<open>current_month\<close> summary asked for five minutes later: all sums are 0 and there is no
  alert, where the claim has 1000, 250, 750, Food at 250 and one alert.
\<close>

theorem scenario_on_last_day_of_month:
  "period_range (stamp 2024 1 31 10 5 0) ''current_month''
     = Inr (stamp 2024 1 1 0 0 0, stamp 2024 1 31 0 0 0)
   \<and> fst (get_financial_summary (stamp 2024 1 31 10 5 0) ''u1'' ''current_month''
          (scenario (stamp 2024 1 31 10 0 0))) =
     Inr \<lparr>s_period = ''current_month'', s_total_income = 0, s_total_expenses = 0,
          s_net_savings = 0, s_expenses_by_category = [],
          s_budget_alerts = [], s_total_savings = 750\<rparr>"
proof -
  have p: "period_transactions (stamp 2024 1 1 0 0 0) (stamp 2024 1 31 0 0 0)
             (transactions (account_of ''u1'' (scenario (stamp 2024 1 31 10 0 0)))) = []"
    by (simp add: scenario_account period_transactions_def dt_le_def dt_fields_def stamp_def)
  have b: "budget_alerts_loop [] (budgets (account_of ''u1'' (scenario (stamp 2024 1 31 10 0 0))))
           = []"
    by (simp add: scenario_account dict_get_def)
  have t: "total_savings (account_of ''u1'' (scenario (stamp 2024 1 31 10 0 0))) = 750"
    by (simp add: scenario_account)
  have "fst (get_financial_summary (stamp 2024 1 31 10 5 0) ''u1'' ''current_month''
          (scenario (stamp 2024 1 31 10 0 0))) =
     Inr \<lparr>s_period = ''current_month'', s_total_income = 0, s_total_expenses = 0,
          s_net_savings = 0, s_expenses_by_category = [],
          s_budget_alerts = [], s_total_savings = 750\<rparr>"
    unfolding fst_get_financial_summary range_january_2024
    by (simp only: ebind_def sum.case prod.case p summary_of_nil b t)
  with range_january_2024 show ?thesis by (rule conjI)
qed

text \<open>
  C5, as the code has it. When no transaction of the account lies in the date range of
  the period, the summary has income, expenses and net savings 0 and no expenses by
  category. Nothing is spent in any category, so a budget raises an alert exactly when
  its amount is negative: the alerts are empty when no budget amount is negative.
\<close>

theorem empty_period_summary:
  assumes "period_range now period = Inr (start_date, end_date)"
    and "period_transactions start_date end_date (transactions (account_of u s)) = []"
  shows "fst (get_financial_summary now u period s) =
     Inr \<lparr>s_period = period, s_total_income = 0, s_total_expenses = 0, s_net_savings = 0,
          s_expenses_by_category = [],
          s_budget_alerts =
            map (\<lambda>(category, budget_info).
                   \<lparr>a_category = category, a_spent = 0, a_budget = b_amount budget_info\<rparr>)
              (filter (\<lambda>(category, budget_info). b_amount budget_info < 0)
                 (budgets (account_of u s))),
          s_total_savings = total_savings (account_of u s)\<rparr>
   \<and> (list_all (\<lambda>(category, budget_info). 0 \<le> b_amount budget_info)
         (budgets (account_of u s)) \<longrightarrow>
       fst (get_financial_summary now u period s) =
         Inr \<lparr>s_period = period, s_total_income = 0, s_total_expenses = 0, s_net_savings = 0,
              s_expenses_by_category = [], s_budget_alerts = [],
              s_total_savings = total_savings (account_of u s)\<rparr>)"
proof -
  have f: "fst (get_financial_summary now u period s) =
             Inr (summary_of period (account_of u s) [])"
    unfolding fst_get_financial_summary assms(1)
    by (simp only: ebind_def sum.case prod.case assms(2))
  have n: "filter (\<lambda>(category, budget_info). b_amount budget_info < 0) bs = []"
    if "list_all (\<lambda>(category, budget_info). 0 \<le> b_amount budget_info) bs"
    for bs :: "(string \<times> budget_entry) list"
    using that by (induction bs) (auto simp: not_less)
  show ?thesis
    unfolding f summary_of_nil budget_alerts_nothing_spent
    using n [of "budgets (account_of u s)"] by simp
qed

lemma scenario_february_not_in_march:
  "period_transactions (stamp 2024 3 1 0 0 0) (stamp 2024 3 31 0 0 0)
     (transactions (account_of ''u1'' (scenario (stamp 2024 2 20 10 0 0)))) = []"
  by (simp add: scenario_account period_transactions_def dt_le_def dt_fields_def stamp_def)

theorem empty_period_summary_witness:
  "period_range (stamp 2024 3 15 10 5 0) ''current_month''
     = Inr (stamp 2024 3 1 0 0 0, stamp 2024 3 31 0 0 0)
   \<and> period_transactions (stamp 2024 3 1 0 0 0) (stamp 2024 3 31 0 0 0)
       (transactions (account_of ''u1'' (scenario (stamp 2024 2 20 10 0 0)))) = []
   \<and> fst (get_financial_summary (stamp 2024 3 15 10 5 0) ''u1'' ''current_month''
            (scenario (stamp 2024 2 20 10 0 0))) =
       Inr \<lparr>s_period = ''current_month'', s_total_income = 0, s_total_expenses = 0,
            s_net_savings = 0, s_expenses_by_category = [], s_budget_alerts = [],
            s_total_savings = 750\<rparr>"
proof -
  have p: "period_transactions (stamp 2024 3 1 0 0 0) (stamp 2024 3 31 0 0 0)
             (transactions (account_of ''u1'' (scenario (stamp 2024 2 20 10 0 0)))) = []"
    by (rule scenario_february_not_in_march)
  have b: "list_all (\<lambda>(category, budget_info). 0 \<le> b_amount budget_info)
             (budgets (account_of ''u1'' (scenario (stamp 2024 2 20 10 0 0))))"
    by (simp add: scenario_account)
  have t: "total_savings (account_of ''u1'' (scenario (stamp 2024 2 20 10 0 0))) = 750"
    by (simp add: scenario_account)
  have "fst (get_financial_summary (stamp 2024 3 15 10 5 0) ''u1'' ''current_month''
            (scenario (stamp 2024 2 20 10 0 0))) =
       Inr \<lparr>s_period = ''current_month'', s_total_income = 0, s_total_expenses = 0,
            s_net_savings = 0, s_expenses_by_category = [], s_budget_alerts = [],
            s_total_savings = total_savings
              (account_of ''u1'' (scenario (stamp 2024 2 20 10 0 0)))\<rparr>"
    using empty_period_summary [OF range_march_2024 p] b by blast
  then show ?thesis
    unfolding t using range_march_2024 p by blast
qed

text \<open>
  C5 as stated fails for a budget with a negative amount, which \<open>set_budget\<close>
  accepts: an account without any transaction gets an alert for it.
\<close>

theorem empty_period_alert_for_negative_budget:
  "transactions (account_of ''u1'' negative_budget_tracker) = []
   \<and> fst (get_financial_summary (stamp 2024 3 15 10 5 0) ''u1'' ''current_month''
            negative_budget_tracker) =
       Inr \<lparr>s_period = ''current_month'', s_total_income = 0, s_total_expenses = 0,
            s_net_savings = 0, s_expenses_by_category = [],
            s_budget_alerts = [\<lparr>a_category = ''Food'', a_spent = 0, a_budget = - 5\<rparr>],
            s_total_savings = 0\<rparr>
   \<and> s_budget_alerts (projr (fst (get_financial_summary (stamp 2024 3 15 10 5 0) ''u1''
            ''current_month'' negative_budget_tracker))) \<noteq> []"
proof -
  have a: "account_of ''u1'' negative_budget_tracker =
      \<lparr>transactions = [], budgets = [(''Food'', \<lparr>b_amount = - 5, b_set_date = (2024, 3, 15)\<rparr>)],
       savings_goals = [], total_savings = 0\<rparr>"
    by (simp add: negative_budget_tracker_def account_of_set_budget)
       (simp add: account_of_def empty_tracker_def dict_get_def fresh_account_def date_of_def
          stamp_def)
  have s: "fst (get_financial_summary (stamp 2024 3 15 10 5 0) ''u1'' ''current_month''
            negative_budget_tracker) =
       Inr \<lparr>s_period = ''current_month'', s_total_income = 0, s_total_expenses = 0,
            s_net_savings = 0, s_expenses_by_category = [],
            s_budget_alerts = [\<lparr>a_category = ''Food'', a_spent = 0, a_budget = - 5\<rparr>],
            s_total_savings = 0\<rparr>"
    unfolding fst_get_financial_summary range_march_2024 a
    by (simp add: ebind_def period_transactions_def summary_of_nil dict_get_def)
  show ?thesis
    unfolding s by (simp add: a)
qed

lemma sentinel_covers_years:
  assumes "valid_datetime d" and "2000 \<le> year d" and "year d < 2100"
  shows "dt_le (stamp 2000 1 1 0 0 0) d \<and> dt_le d (stamp 2100 1 1 0 0 0)"
  using assms
  by (auto simp add: dt_le_def dt_fields_def stamp_def valid_datetime_def)

lemma filter_all: "(\<And>x. x \<in> set xs \<Longrightarrow> P x) \<Longrightarrow> filter P xs = xs"
  by (induction xs) auto

text \<open>
  C4, as the code has it. The \<open>all_time\<close> period (any period other than \<open>current_month\<close>
  and \<open>last_month\<close> is treated so) is the fixed range from 2000-01-01 00:00:00 to
  2100-01-01 00:00:00, both included, whatever the clock shows: the summary is computed
  from the transactions of the account stamped in that range. When every transaction of
  the account is stamped in the years 2000 to 2099, the summary is computed from the
  whole log.
\<close>

theorem all_time_is_2000_to_2100:
  "fst (get_financial_summary now u ''all_time'' s) =
     Inr (summary_of ''all_time'' (account_of u s)
            (filter (\<lambda>t. dt_le (stamp 2000 1 1 0 0 0) (t_date t)
                        \<and> dt_le (t_date t) (stamp 2100 1 1 0 0 0))
               (transactions (account_of u s))))
   \<and> ((\<forall>t \<in> set (transactions (account_of u s)).
          valid_datetime (t_date t) \<and> 2000 \<le> year (t_date t) \<and> year (t_date t) < 2100)
       \<longrightarrow> fst (get_financial_summary now u ''all_time'' s) =
             Inr (summary_of ''all_time'' (account_of u s) (transactions (account_of u s))))"
proof -
  have r: "period_range now ''all_time'' = Inr (stamp 2000 1 1 0 0 0, stamp 2100 1 1 0 0 0)"
    by (rule period_range_all_time) simp_all
  have f: "fst (get_financial_summary now u ''all_time'' s) =
     Inr (summary_of ''all_time'' (account_of u s)
            (filter (\<lambda>t. dt_le (stamp 2000 1 1 0 0 0) (t_date t)
                        \<and> dt_le (t_date t) (stamp 2100 1 1 0 0 0))
               (transactions (account_of u s))))"
    unfolding fst_get_financial_summary r
    by (simp only: ebind_def sum.case prod.case period_transactions_def)
  have g: "filter (\<lambda>t. dt_le (stamp 2000 1 1 0 0 0) (t_date t)
                        \<and> dt_le (t_date t) (stamp 2100 1 1 0 0 0))
               (transactions (account_of u s)) = transactions (account_of u s)"
    if "\<forall>t \<in> set (transactions (account_of u s)).
          valid_datetime (t_date t) \<and> 2000 \<le> year (t_date t) \<and> year (t_date t) < 2100"
    by (rule filter_all) (use that sentinel_covers_years in blast)
  show ?thesis
    using f g by simp
qed

theorem all_time_is_2000_to_2100_witness:
  "list_all (\<lambda>t. valid_datetime (t_date t) \<and> 2000 \<le> year (t_date t) \<and> year (t_date t) < 2100)
     (transactions (account_of ''u1'' (scenario (stamp 2024 2 20 10 0 0))))
   \<and> fst (get_financial_summary (stamp 2024 3 15 10 5 0) ''u1'' ''all_time''
            (scenario (stamp 2024 2 20 10 0 0))) =
       Inr \<lparr>s_period = ''all_time'', s_total_income = 1000, s_total_expenses = 250,
            s_net_savings = 750, s_expenses_by_category = [(''Food'', 250)],
            s_budget_alerts = [\<lparr>a_category = ''Food'', a_spent = 250, a_budget = 100\<rparr>],
            s_total_savings = 750\<rparr>"
proof -
  have h: "list_all
      (\<lambda>t. valid_datetime (t_date t) \<and> 2000 \<le> year (t_date t) \<and> year (t_date t) < 2100)
      (transactions (account_of ''u1'' (scenario (stamp 2024 2 20 10 0 0))))"
    by (simp add: scenario_account valid_datetime_def stamp_def days_in_month_def is_leap_def)
  have "fst (get_financial_summary (stamp 2024 3 15 10 5 0) ''u1'' ''all_time''
            (scenario (stamp 2024 2 20 10 0 0))) =
          Inr (summary_of ''all_time'' (account_of ''u1'' (scenario (stamp 2024 2 20 10 0 0)))
                 (transactions (account_of ''u1'' (scenario (stamp 2024 2 20 10 0 0)))))"
    using all_time_is_2000_to_2100 [of "stamp 2024 3 15 10 5 0" "''u1''"
        "scenario (stamp 2024 2 20 10 0 0)"] h [unfolded list_all_iff] by blast
  then show ?thesis
    unfolding scenario_summary_of using h by (rule conjI [rotated])
qed

text \<open>
  C4 as stated fails: 2100-01-01 00:00:01 and 1999-12-31 23:59:59 are dates a
  transaction can carry, and an income recorded then is missing from the \<open>all_time\<close>
  summary.
\<close>

theorem all_time_misses_dates_outside:
  "valid_datetime (stamp 2100 1 1 0 0 1)
   \<and> amounts_of_type ''income'' (transactions (account_of ''u1'' (income_at (stamp 2100 1 1 0 0 1))))
       = 1000
   \<and> fst (get_financial_summary (stamp 2100 1 1 0 5 0) ''u1'' ''all_time''
            (income_at (stamp 2100 1 1 0 0 1))) =
       Inr \<lparr>s_period = ''all_time'', s_total_income = 0, s_total_expenses = 0,
            s_net_savings = 0, s_expenses_by_category = [], s_budget_alerts = [],
            s_total_savings = 1000\<rparr>
   \<and> valid_datetime (stamp 1999 12 31 23 59 59)
   \<and> fst (get_financial_summary (stamp 2024 3 15 10 5 0) ''u1'' ''all_time''
            (income_at (stamp 1999 12 31 23 59 59))) =
       Inr \<lparr>s_period = ''all_time'', s_total_income = 0, s_total_expenses = 0,
            s_net_savings = 0, s_expenses_by_category = [], s_budget_alerts = [],
            s_total_savings = 1000\<rparr>"
proof -
  have a: "account_of ''u1'' (income_at now) =
      \<lparr>transactions = [\<lparr>t_id = 1, t_date = now, t_amount = 1000, t_category = ''Salary'',
          t_type = ''income'', t_description = []\<rparr>],
       budgets = [], savings_goals = [], total_savings = 1000\<rparr>" for now
    by (simp add: income_at_def account_of_add_transaction)
       (simp add: account_of_def empty_tracker_def dict_get_def fresh_account_def)
  have r: "period_range now ''all_time'' = Inr (stamp 2000 1 1 0 0 0, stamp 2100 1 1 0 0 0)"
    for now
    by (rule period_range_all_time) simp_all
  have v: "valid_datetime (stamp 2100 1 1 0 0 1)" "valid_datetime (stamp 1999 12 31 23 59 59)"
    by (simp_all add: valid_datetime_def stamp_def days_in_month_def)
  have i: "amounts_of_type ''income''
             (transactions (account_of ''u1'' (income_at (stamp 2100 1 1 0 0 1)))) = 1000"
    by (simp add: a amounts_of_type_def)
  have p: "period_transactions (stamp 2000 1 1 0 0 0) (stamp 2100 1 1 0 0 0)
             (transactions (account_of ''u1'' (income_at (stamp 2100 1 1 0 0 1)))) = []"
          "period_transactions (stamp 2000 1 1 0 0 0) (stamp 2100 1 1 0 0 0)
             (transactions (account_of ''u1'' (income_at (stamp 1999 12 31 23 59 59)))) = []"
    by (simp_all add: a period_transactions_def dt_le_def dt_fields_def stamp_def)
  have b: "budget_alerts_loop [] (budgets (account_of ''u1'' (income_at now))) = []"
    and t: "total_savings (account_of ''u1'' (income_at now)) = 1000" for now
    by (simp_all add: a)
  have s: "fst (get_financial_summary (stamp 2100 1 1 0 5 0) ''u1'' ''all_time''
            (income_at (stamp 2100 1 1 0 0 1))) =
       Inr \<lparr>s_period = ''all_time'', s_total_income = 0, s_total_expenses = 0,
            s_net_savings = 0, s_expenses_by_category = [], s_budget_alerts = [],
            s_total_savings = 1000\<rparr>"
          "fst (get_financial_summary (stamp 2024 3 15 10 5 0) ''u1'' ''all_time''
            (income_at (stamp 1999 12 31 23 59 59))) =
       Inr \<lparr>s_period = ''all_time'', s_total_income = 0, s_total_expenses = 0,
            s_net_savings = 0, s_expenses_by_category = [], s_budget_alerts = [],
            s_total_savings = 1000\<rparr>"
    unfolding fst_get_financial_summary r
    by (simp_all only: ebind_def sum.case prod.case p summary_of_nil b t)
  show ?thesis
    using v i s by blast
qed

end
